theory Spec2Isabelle
  imports Complex_Main "HOL-Library.Word"
begin

section \<open>JavaScript values\<close>

text \<open>
  The predicates of \<^verbatim>\<open>Methanal/Preds.js\<close> are untyped JavaScript: they compare,
  negate and measure whatever value they are handed. The embedding therefore starts with
  the values themselves and the coercions the operators \<^verbatim>\<open>!\<close>, \<^verbatim>\<open>&&\<close>, \<^verbatim>\<open>||\<close>,
  \<^verbatim>\<open>^\<close>, \<^verbatim>\<open><\<close>, \<^verbatim>\<open><=\<close>, \<^verbatim>\<open>>\<close>, \<^verbatim>\<open>>=\<close> apply to them.

  A number is \<open>NaN\<close>, an infinity, or finite. Finite numbers are modelled as reals: the
  finite doubles are a subset of them, and every comparison of two doubles is exact, so a
  statement about comparisons that holds for all reals holds for all finite doubles. The
  two zeros compare equal and are one value here.
\<close>

datatype jsnum = NaN | NegInf | Fin real | PosInf

text \<open>
  The values: the primitives, arrays, and \<^verbatim>\<open>Date\<close> objects (a \<^verbatim>\<open>Date\<close> holds its time
  value, \<open>NaN\<close> for an invalid date). Characters of a string are HOL's 8-bit characters,
  standing for the code units of the JavaScript string.
\<close>

datatype jsval =
    Undefined
  | Null
  | Boolean bool
  | Number jsnum
  | Str string
  | Arr "jsval list"
  | Date jsnum

text \<open>An exception is a value: \<^verbatim>\<open>TypeError\<close>, or the generic \<^verbatim>\<open>Error\<close>.\<close>

datatype error = TypeError | Error

type_synonym 'a result = "error + 'a"

text \<open>
  A JavaScript function, called through \<^verbatim>\<open>f.apply(null, arguments)\<close>, takes the list of
  its arguments and returns a value or throws. A formal parameter beyond the arguments
  passed is \<^verbatim>\<open>undefined\<close>.
\<close>

type_synonym jsfun = "jsval list \<Rightarrow> jsval result"

definition arg :: "jsval list \<Rightarrow> nat \<Rightarrow> jsval" where
  "arg args i = (if i < length args then args ! i else Undefined)"

subsection \<open>Conversions that the engine owns\<close>

text \<open>
  Three conversions parse or print text and are fixed by the engine, not by this program:
  the numeric value of a string (\<^verbatim>\<open>StringToNumber\<close>), the string an array prints as
  (\<^verbatim>\<open>Array.prototype.toString\<close>, that is \<^verbatim>\<open>join\<close>), and the time value a string parses
  to (\<^verbatim>\<open>Date.parse\<close>). They are parameters of the model; every theorem below holds for
  every choice of them.
\<close>

record host =
  str_number :: "string \<Rightarrow> jsnum"
  arr_string :: "jsval list \<Rightarrow> string"
  date_parse :: "string \<Rightarrow> jsnum"

subsection \<open>Coercions\<close>

text \<open>\<^verbatim>\<open>ToBoolean\<close>: what \<^verbatim>\<open>!\<close>, \<^verbatim>\<open>&&\<close>, \<^verbatim>\<open>||\<close> and \<^verbatim>\<open>if\<close> see.\<close>

fun ToBoolean :: "jsval \<Rightarrow> bool" where
  "ToBoolean Undefined = False"
| "ToBoolean Null = False"
| "ToBoolean (Boolean b) = b"
| "ToBoolean (Number n) = (n \<noteq> NaN \<and> n \<noteq> Fin 0)"
| "ToBoolean (Str s) = (s \<noteq> [])"
| "ToBoolean (Arr xs) = True"
| "ToBoolean (Date t) = True"

text \<open>
  \<^verbatim>\<open>ToPrimitive\<close> with hint Number, as the relational operators call it: an array gives
  its string, a \<^verbatim>\<open>Date\<close> its time value (\<^verbatim>\<open>valueOf\<close>).
\<close>

fun ToPrimitive :: "host \<Rightarrow> jsval \<Rightarrow> jsval" where
  "ToPrimitive h (Arr xs) = Str (arr_string h xs)"
| "ToPrimitive h (Date t) = Number t"
| "ToPrimitive h v = v"

fun ToNumber :: "host \<Rightarrow> jsval \<Rightarrow> jsnum" where
  "ToNumber h Undefined = NaN"
| "ToNumber h Null = Fin 0"
| "ToNumber h (Boolean b) = (if b then Fin 1 else Fin 0)"
| "ToNumber h (Number n) = n"
| "ToNumber h (Str s) = str_number h s"
| "ToNumber h (Arr xs) = str_number h (arr_string h xs)"
| "ToNumber h (Date t) = t"

text \<open>\<^verbatim>\<open>ToInteger\<close> on a finite number: truncation towards zero.\<close>

definition trunc :: "real \<Rightarrow> int" where
  "trunc r = (if 0 \<le> r then \<lfloor>r\<rfloor> else \<lceil>r\<rceil>)"

text \<open>\<^verbatim>\<open>ToInt32\<close>, the operand conversion of \<^verbatim>\<open>^\<close>: truncate, then wrap to 32 bits.\<close>

fun ToInt32 :: "jsnum \<Rightarrow> 32 word" where
  "ToInt32 (Fin r) = word_of_int (trunc r)"
| "ToInt32 n = 0"

subsection \<open>Relational comparison\<close>

text \<open>
  The comparison of two numbers is \<^verbatim>\<open>true\<close>, \<^verbatim>\<open>false\<close> or \<^verbatim>\<open>undefined\<close> (\<open>None\<close>,
  when an operand is \<open>NaN\<close>); the cases are in the order of the language definition.
\<close>

fun num_lt :: "jsnum \<Rightarrow> jsnum \<Rightarrow> bool option" where
  "num_lt NaN y = None"
| "num_lt x NaN = None"
| "num_lt PosInf y = Some False"
| "num_lt x PosInf = Some True"
| "num_lt x NegInf = Some False"
| "num_lt NegInf y = Some True"
| "num_lt (Fin a) (Fin b) = Some (a < b)"

text \<open>Two strings compare by code units; a proper prefix is smaller.\<close>

fun str_lt :: "string \<Rightarrow> string \<Rightarrow> bool" where
  "str_lt xs [] = False"
| "str_lt [] (y # ys) = True"
| "str_lt (x # xs) (y # ys) =
     ((of_char x :: nat) < of_char y \<or> (x = y \<and> str_lt xs ys))"

text \<open>
  The abstract relational comparison \<^verbatim>\<open>x < y\<close>: both operands to primitives; two
  strings compare as strings, anything else as numbers.
\<close>

definition compare :: "host \<Rightarrow> jsval \<Rightarrow> jsval \<Rightarrow> bool option" where
  "compare h x y =
     (case (ToPrimitive h x, ToPrimitive h y) of
        (Str s, Str t) \<Rightarrow> Some (str_lt s t)
      | (px, py) \<Rightarrow> num_lt (ToNumber h px) (ToNumber h py))"

text \<open>
  The four operators. \<^verbatim>\<open>x > y\<close> is the comparison of \<open>y\<close> with \<open>x\<close>; \<^verbatim>\<open>x <= y\<close> is
  true when the comparison of \<open>y\<close> with \<open>x\<close> is \<^verbatim>\<open>false\<close> (not \<^verbatim>\<open>undefined\<close>), and
  \<^verbatim>\<open>x >= y\<close> when that of \<open>x\<close> with \<open>y\<close> is.
\<close>

definition js_lt :: "host \<Rightarrow> jsval \<Rightarrow> jsval \<Rightarrow> bool" where
  "js_lt h x y = (compare h x y = Some True)"

definition js_gt :: "host \<Rightarrow> jsval \<Rightarrow> jsval \<Rightarrow> bool" where
  "js_gt h x y = (compare h y x = Some True)"

definition js_le :: "host \<Rightarrow> jsval \<Rightarrow> jsval \<Rightarrow> bool" where
  "js_le h x y = (compare h y x = Some False)"

definition js_ge :: "host \<Rightarrow> jsval \<Rightarrow> jsval \<Rightarrow> bool" where
  "js_ge h x y = (compare h x y = Some False)"

text \<open>\<^verbatim>\<open>a && b\<close> and \<^verbatim>\<open>a || b\<close> return one of their operands, not its truth value.\<close>

definition js_and :: "jsval \<Rightarrow> jsval \<Rightarrow> jsval" where
  "js_and a b = (if ToBoolean a then b else a)"

definition js_or :: "jsval \<Rightarrow> jsval \<Rightarrow> jsval" where
  "js_or a b = (if ToBoolean a then a else b)"

section \<open>Leaf predicates\<close>

text \<open>
  \<^verbatim>\<open>notNull(value)\<close> is \<^verbatim>\<open>value !== null\<close>. Strict equality with \<^verbatim>\<open>null\<close> holds for
  \<^verbatim>\<open>null\<close> alone.
\<close>

definition notNull :: "jsval \<Rightarrow> jsval" where
  "notNull v = Boolean (v \<noteq> Null)"

text \<open>\<^verbatim>\<open>between(a, b, value)\<close> is \<^verbatim>\<open>value >= a && value <= b\<close>.\<close>

definition between :: "host \<Rightarrow> jsval \<Rightarrow> jsval \<Rightarrow> jsval \<Rightarrow> jsval" where
  "between h a b v = js_and (Boolean (js_ge h v a)) (Boolean (js_le h v b))"

text \<open>
  Reading a property of \<^verbatim>\<open>null\<close> or \<^verbatim>\<open>undefined\<close> throws a \<^verbatim>\<open>TypeError\<close>. A string
  and an array have a \<^verbatim>\<open>length\<close>; booleans, numbers and dates have none, and the read
  gives \<^verbatim>\<open>undefined\<close>.
\<close>

fun member_length :: "jsval \<Rightarrow> jsval result" where
  "member_length Undefined = Inl TypeError"
| "member_length Null = Inl TypeError"
| "member_length (Str s) = Inr (Number (Fin (real (length s))))"
| "member_length (Arr xs) = Inr (Number (Fin (real (length xs))))"
| "member_length v = Inr Undefined"

text \<open>\<^verbatim>\<open>value != null\<close>: loose equality with \<^verbatim>\<open>null\<close> holds for \<^verbatim>\<open>null\<close> and \<^verbatim>\<open>undefined\<close>.\<close>

definition loose_ne_null :: "jsval \<Rightarrow> bool" where
  "loose_ne_null v = (v \<noteq> Null \<and> v \<noteq> Undefined)"

text \<open>
  \<^verbatim>\<open>lengthAtLeast(n, value)\<close> is \<^verbatim>\<open>value != null && value.length >= n\<close>: the right
  operand is evaluated only when the left one is true.
\<close>

definition lengthAtLeast :: "host \<Rightarrow> jsval \<Rightarrow> jsval \<Rightarrow> jsval result" where
  "lengthAtLeast h n v =
     (let l = Boolean (loose_ne_null v) in
      if ToBoolean l then
        (case member_length v of
           Inl e \<Rightarrow> Inl e
         | Inr len \<Rightarrow> Inr (Boolean (js_ge h len n)))
      else Inr l)"

section \<open>Combinators\<close>

text \<open>
  \<^verbatim>\<open>combine(c, fs)\<close> returns a function whose body is the loop
  \<^verbatim>\<open>for (var i = 0; i < fs.length; ++i) vs.push(fs[i].apply(null, arguments))\<close>
  followed by \<^verbatim>\<open>return c(vs)\<close>. The loop is a recursion on the index \<open>i\<close> with the
  array \<open>vs\<close> built so far; an exception of \<open>fs[i]\<close> leaves the loop.
\<close>

function combine_loop :: "jsfun list \<Rightarrow> jsval list \<Rightarrow> nat \<Rightarrow> jsval list \<Rightarrow> jsval list result" where
  "combine_loop fs args i vs =
     (if i < length fs then
        (case (fs ! i) args of
           Inl e \<Rightarrow> Inl e
         | Inr v \<Rightarrow> combine_loop fs args (i + 1) (vs @ [v]))
      else Inr vs)"
  by pat_completeness auto
termination
  by (relation "measure (\<lambda>(fs, args, i, vs). length fs - i)") auto

declare combine_loop.simps [simp del]

definition combine :: "(jsval list \<Rightarrow> jsval result) \<Rightarrow> jsfun list \<Rightarrow> jsfun" where
  "combine c fs =
     (\<lambda>args. case combine_loop fs args 0 [] of Inl e \<Rightarrow> Inl e | Inr vs \<Rightarrow> c vs)"

text \<open>
  What the documentation of \<^verbatim>\<open>combine\<close> says is gathered: the result of every function
  of \<open>fs\<close> on the same arguments, in the order of \<open>fs\<close>; the first exception ends it.
\<close>

fun gather :: "jsfun list \<Rightarrow> jsval list \<Rightarrow> jsval list result" where
  "gather [] args = Inr []"
| "gather (f # fs) args =
     (case f args of
        Inl e \<Rightarrow> Inl e
      | Inr v \<Rightarrow> (case gather fs args of Inl e \<Rightarrow> Inl e | Inr vs \<Rightarrow> Inr (v # vs)))"

text \<open>
  Modelled from the spec: \<^verbatim>\<open>Methanal.Util.reduce\<close>, which is not among the sources. The
  spec calls it a left-to-right accumulation of a sequence with a binary operation,
  optionally seeded, where the unseeded fold of an empty sequence is an error; the test
  \<^verbatim>\<open>test_reduce\<close> fixes \<^verbatim>\<open>reduce(add, [1, 2, 3]) = 6\<close>, \<^verbatim>\<open>reduce(multiply, [1, 2, 3], 10) = 60\<close>,
  \<^verbatim>\<open>reduce(add, [], 10) = 10\<close>, \<^verbatim>\<open>reduce(add, [10]) = 10\<close>, and that \<^verbatim>\<open>reduce(add, [])\<close>
  throws \<^verbatim>\<open>Error\<close>. Without a seed the first element starts the accumulation.
\<close>

definition reduce :: "('a \<Rightarrow> 'a \<Rightarrow> 'a) \<Rightarrow> 'a list \<Rightarrow> 'a option \<Rightarrow> 'a result" where
  "reduce f xs initial =
     (case initial of
        Some acc \<Rightarrow> Inr (foldl f acc xs)
      | None \<Rightarrow> (case xs of [] \<Rightarrow> Inl Error | x # rest \<Rightarrow> Inr (foldl f x rest)))"

text \<open>
  The three folded operations, \<^verbatim>\<open>_and\<close>, \<^verbatim>\<open>_or\<close> and \<^verbatim>\<open>_xor\<close> in the source:
  \<^verbatim>\<open>a && b\<close>, \<^verbatim>\<open>a || b\<close> and \<^verbatim>\<open>!!(a ^ b)\<close>. The bitwise \<^verbatim>\<open>^\<close> converts both
  operands to 32-bit integers.
\<close>

definition and_fn :: "jsval \<Rightarrow> jsval \<Rightarrow> jsval" where
  "and_fn a b = js_and a b"

definition or_fn :: "jsval \<Rightarrow> jsval \<Rightarrow> jsval" where
  "or_fn a b = js_or a b"

definition xor_fn :: "host \<Rightarrow> jsval \<Rightarrow> jsval \<Rightarrow> jsval" where
  "xor_fn h a b = Boolean (xor (ToInt32 (ToNumber h a)) (ToInt32 (ToNumber h b)) \<noteq> 0)"

text \<open>\<^verbatim>\<open>AND\<close>, \<^verbatim>\<open>OR\<close> and \<^verbatim>\<open>XOR\<close> call \<^verbatim>\<open>reduce\<close> with two arguments: no seed.\<close>

definition AND :: "jsval list \<Rightarrow> jsval result" where
  "AND values = reduce and_fn values None"

definition OR :: "jsval list \<Rightarrow> jsval result" where
  "OR values = reduce or_fn values None"

definition XOR :: "host \<Rightarrow> jsval list \<Rightarrow> jsval result" where
  "XOR h values = reduce (xor_fn h) values None"

text \<open>\<^verbatim>\<open>invert(p)\<close> returns the function \<^verbatim>\<open>!p.apply(null, arguments)\<close>.\<close>

definition invert :: "jsfun \<Rightarrow> jsfun" where
  "invert p =
     (\<lambda>args. case p args of Inl e \<Rightarrow> Inl e | Inr v \<Rightarrow> Inr (Boolean (\<not> ToBoolean v)))"

section \<open>Time\<close>

text \<open>
  Modelled from the spec: \<^verbatim>\<open>Methanal.Util.TimeDelta\<close>, which is not among the sources.
  It takes a unit breakdown with the keys \<^verbatim>\<open>days\<close>, \<^verbatim>\<open>hours\<close>, \<^verbatim>\<open>minutes\<close>,
  \<^verbatim>\<open>seconds\<close>, \<^verbatim>\<open>milliseconds\<close> (any subset, each signed, an omitted key counting as 0)
  and gives a signed integer count of milliseconds. The breakdown is a map from key to
  count; the counts are integers, as the spec has them, and the sum is formed as the
  test \<^verbatim>\<open>test_timedelta\<close> writes it, \<^verbatim>\<open>1000 * (3600 * (24 * days + hours) + 60 * minutes + seconds) + milliseconds\<close>.
\<close>

definition part :: "(string \<rightharpoonup> int) \<Rightarrow> string \<Rightarrow> int" where
  "part values k = (case values k of None \<Rightarrow> 0 | Some n \<Rightarrow> n)"

definition TimeDelta :: "(string \<rightharpoonup> int) \<Rightarrow> int" where
  "TimeDelta values =
     1000 * (3600 * (24 * part values ''days'' + part values ''hours'')
             + 60 * part values ''minutes'' + part values ''seconds'')
     + part values ''milliseconds''"

text \<open>
  The value a caller of \<^verbatim>\<open>TimeDelta\<close> holds is a primitive number: \<^verbatim>\<open>test_timedelta\<close>
  asserts \<^verbatim>\<open>td === 1000 * 3600 * 24\<close> with \<^verbatim>\<open>assertIdentical\<close>, and \<^verbatim>\<open>test_offset\<close>
  adds it to a timestamp.
\<close>

definition td_value :: "int \<Rightarrow> jsval" where
  "td_value td = Number (Fin (real_of_int td))"

text \<open>
  Modelled from the spec: \<^verbatim>\<open>Methanal.Util.Time\<close>, which is not among the sources: an
  immutable value of a timestamp in milliseconds and a date-only flag.
  \<^verbatim>\<open>offset(delta)\<close> returns a new \<^verbatim>\<open>Time\<close> whose timestamp is the old one plus
  \<open>delta\<close> and keeps the flag; \<^verbatim>\<open>asDate()\<close> is the native date of the same instant.
\<close>

record Time =
  timestamp :: int
  oneDay :: bool

definition offset :: "Time \<Rightarrow> int \<Rightarrow> Time" where
  "offset self timedelta = self\<lparr>timestamp := timestamp self + timedelta\<rparr>"

text \<open>
  \<^verbatim>\<open>TimeClip\<close>: a \<^verbatim>\<open>Date\<close> holds an integral time value of magnitude at most
  \<open>8.64 \<times> 10\<^sup>1\<^sup>5\<close>, and is invalid (\<open>NaN\<close>) otherwise.
\<close>

fun TimeClip :: "jsnum \<Rightarrow> jsnum" where
  "TimeClip (Fin r) = (if \<bar>r\<bar> > 8640000000000000 then NaN else Fin (of_int (trunc r)))"
| "TimeClip n = NaN"

definition asDate :: "Time \<Rightarrow> jsval" where
  "asDate self = Date (TimeClip (Fin (real_of_int (timestamp self))))"

text \<open>
  \<^verbatim>\<open>new Date(value)\<close> with one argument: a string (or an array, through its string) is
  parsed; any other value is converted to a number and clipped.
\<close>

definition new_Date :: "host \<Rightarrow> jsval \<Rightarrow> jsval" where
  "new_Date h v =
     (case ToPrimitive h v of
        Str s \<Rightarrow> Date (date_parse h s)
      | p \<Rightarrow> Date (TimeClip (ToNumber h p)))"

fun instanceof_Date :: "jsval \<Rightarrow> bool" where
  "instanceof_Date (Date t) = True"
| "instanceof_Date v = False"

text \<open>
  Reading the property \<^verbatim>\<open>offset\<close>: a \<^verbatim>\<open>TypeError\<close> on \<^verbatim>\<open>null\<close> and \<^verbatim>\<open>undefined\<close>;
  no other value of the model has such a property, a primitive number least of all, and
  the read gives \<^verbatim>\<open>undefined\<close>.
\<close>

fun member_offset :: "jsval \<Rightarrow> jsval result" where
  "member_offset Undefined = Inl TypeError"
| "member_offset Null = Inl TypeError"
| "member_offset v = Inr Undefined"

text \<open>
  \<^verbatim>\<open>dateSince(timedelta, start, value)\<close>, statement by statement:
  \<^verbatim>\<open>var t = start.offset(timedelta).asDate();\<close>
  \<^verbatim>\<open>if (value && !(value instanceof Date)) { value = new Date(value); }\<close>
  \<^verbatim>\<open>return timedelta.offset > 0 ? value > t : value < t;\<close>
  The argument \<open>timedelta\<close> is the count of milliseconds \<^verbatim>\<open>TimeDelta\<close> returned.
\<close>

definition dateSince :: "host \<Rightarrow> int \<Rightarrow> Time \<Rightarrow> jsval \<Rightarrow> jsval result" where
  "dateSince h timedelta start value =
     (let t = asDate (offset start timedelta);
          value' = (if ToBoolean value \<and> \<not> instanceof_Date value
                    then new_Date h value else value)
      in case member_offset (td_value timedelta) of
           Inl e \<Rightarrow> Inl e
         | Inr off \<Rightarrow>
             Inr (Boolean (if js_gt h off (Number (Fin 0))
                           then js_gt h value' t else js_lt h value' t)))"

text \<open>
  \<^verbatim>\<open>futureDate(value)\<close> is \<^verbatim>\<open>(new Date()) <= value\<close>. The clock is an input: \<open>now\<close> is
  the time value \<^verbatim>\<open>new Date()\<close> reads during the call.
  \<^verbatim>\<open>pastDate\<close> is \<^verbatim>\<open>invert(futureDate)\<close>.
\<close>

definition futureDate :: "host \<Rightarrow> int \<Rightarrow> jsfun" where
  "futureDate h now =
     (\<lambda>args. Inr (Boolean (js_le h (Date (Fin (real_of_int now))) (arg args 0))))"

definition pastDate :: "host \<Rightarrow> int \<Rightarrow> jsfun" where
  "pastDate h now = invert (futureDate h now)"

section \<open>The order of the numbers\<close>

text \<open>
  The order of the numbers as the reader of \<open>a \<le> value\<close> means it: the order of the
  extended reals, and nothing is comparable with \<open>NaN\<close>.
\<close>

fun num_leq :: "jsnum \<Rightarrow> jsnum \<Rightarrow> bool" where
  "num_leq NaN y = False"
| "num_leq x NaN = False"
| "num_leq NegInf y = True"
| "num_leq x PosInf = True"
| "num_leq (Fin a) (Fin b) = (a \<le> b)"
| "num_leq PosInf y = False"
| "num_leq x NegInf = False"

section \<open>Properties of the leaf predicates\<close>

lemma js_ge_Number: "js_ge h (Number x) (Number y) = num_leq y x"
  by (cases x; cases y) (auto simp: js_ge_def compare_def)

lemma js_le_Number: "js_le h (Number x) (Number y) = num_leq x y"
  by (cases x; cases y) (auto simp: js_le_def compare_def)

lemma js_ge_Undefined: "js_ge h Undefined n = False"
  by (cases "ToPrimitive h n") (simp_all add: js_ge_def compare_def)

text \<open>
  C6. For all numbers \<open>a\<close>, \<open>b\<close> and \<open>value\<close>, \<^verbatim>\<open>between(a, b, value)\<close> is true exactly
  when \<open>a \<le> value\<close> and \<open>value \<le> b\<close>, both bounds inclusive; \<^verbatim>\<open>between(1,10,1)\<close> and
  \<^verbatim>\<open>between(1,10,10)\<close> are true, \<^verbatim>\<open>between(1,10,0)\<close> and \<^verbatim>\<open>between(1,10,11)\<close> false.
\<close>

theorem between_inclusive:
  "between h (Number a) (Number b) (Number v) = Boolean (num_leq a v \<and> num_leq v b)
   \<and> between h (Number (Fin x)) (Number (Fin y)) (Number (Fin z)) = Boolean (x \<le> z \<and> z \<le> y)
   \<and> between h (Number (Fin 1)) (Number (Fin 10)) (Number (Fin 1)) = Boolean True
   \<and> between h (Number (Fin 1)) (Number (Fin 10)) (Number (Fin 10)) = Boolean True
   \<and> between h (Number (Fin 1)) (Number (Fin 10)) (Number (Fin 0)) = Boolean False
   \<and> between h (Number (Fin 1)) (Number (Fin 10)) (Number (Fin 11)) = Boolean False"
  by (simp add: between_def js_and_def js_ge_Number js_le_Number)

text \<open>
  C7. \<^verbatim>\<open>notNull(value)\<close> is false exactly when \<open>value\<close> is \<^verbatim>\<open>null\<close>; in particular
  \<^verbatim>\<open>notNull(undefined)\<close> is true.
\<close>

theorem notNull_only_null:
  "(notNull v = Boolean False \<longleftrightarrow> v = Null) \<and> notNull Undefined = Boolean True"
  by (simp add: notNull_def)

text \<open>
  C8. \<^verbatim>\<open>lengthAtLeast(n, value)\<close> is true exactly when \<open>value\<close> is neither \<^verbatim>\<open>null\<close>
  nor \<^verbatim>\<open>undefined\<close> and its length is at least \<open>n\<close>. Value by value: \<^verbatim>\<open>null\<close> and
  \<^verbatim>\<open>undefined\<close> give false without a read of \<^verbatim>\<open>length\<close>; an array or a string gives
  the comparison of \<open>n\<close> with its length; a value that has no length gives false. In
  particular \<^verbatim>\<open>lengthAtLeast(2, [1,2])\<close> is true, \<^verbatim>\<open>lengthAtLeast(2, [1])\<close> and
  \<^verbatim>\<open>lengthAtLeast(2, null)\<close> are false. The call never throws.
\<close>

theorem lengthAtLeast_iff:
  "lengthAtLeast h n Null = Inr (Boolean False)
   \<and> lengthAtLeast h n Undefined = Inr (Boolean False)
   \<and> lengthAtLeast h (Number m) (Arr xs) = Inr (Boolean (num_leq m (Fin (real (length xs)))))
   \<and> lengthAtLeast h (Number m) (Str s) = Inr (Boolean (num_leq m (Fin (real (length s)))))
   \<and> lengthAtLeast h (Number (Fin k)) (Arr xs) = Inr (Boolean (k \<le> real (length xs)))
   \<and> lengthAtLeast h (Number (Fin k)) (Str s) = Inr (Boolean (k \<le> real (length s)))
   \<and> lengthAtLeast h n (Boolean b) = Inr (Boolean False)
   \<and> lengthAtLeast h n (Number m) = Inr (Boolean False)
   \<and> lengthAtLeast h n (Date t) = Inr (Boolean False)
   \<and> lengthAtLeast h (Number (Fin 2)) (Arr [Number (Fin 1), Number (Fin 2)]) = Inr (Boolean True)
   \<and> lengthAtLeast h (Number (Fin 2)) (Arr [Number (Fin 1)]) = Inr (Boolean False)
   \<and> lengthAtLeast h (Number (Fin 2)) Null = Inr (Boolean False)"
  by (simp add: lengthAtLeast_def loose_ne_null_def js_ge_Number js_ge_Undefined)

section \<open>Properties of the combinators\<close>

text \<open>The model of \<^verbatim>\<open>reduce\<close> passes the five assertions of \<^verbatim>\<open>test_reduce\<close>.\<close>

lemma reduce_tests:
  "reduce (+) [1, 2, 3 :: int] None = Inr 6
   \<and> reduce (*) [1, 2, 3 :: int] (Some 10) = Inr 60
   \<and> reduce (+) ([] :: int list) None = Inl Error
   \<and> reduce (+) ([] :: int list) (Some 10) = Inr 10
   \<and> reduce (+) [10 :: int] None = Inr 10"
  by (simp add: reduce_def)

text \<open>
  The loop of \<^verbatim>\<open>combine\<close>, entered at index \<open>i\<close> with \<open>vs\<close> collected, appends to
  \<open>vs\<close> what the functions from \<open>i\<close> on return, in their order.
\<close>

lemma combine_loop_gather:
  "i \<le> length fs \<Longrightarrow>
   combine_loop fs args i vs =
     (case gather (drop i fs) args of Inl e \<Rightarrow> Inl e | Inr ws \<Rightarrow> Inr (vs @ ws))"
proof (induction fs args i vs rule: combine_loop.induct)
  case (1 fs args i vs)
  show ?case
  proof (cases "i < length fs")
    case False
    with "1.prems" have "drop i fs = []" by simp
    with False show ?thesis by (simp add: combine_loop.simps [of fs args i vs])
  next
    case True
    then have d: "drop i fs = (fs ! i) # drop (i + 1) fs"
      by (simp add: Cons_nth_drop_Suc)
    show ?thesis
    proof (cases "(fs ! i) args")
      case (Inl e)
      with True d show ?thesis by (simp add: combine_loop.simps [of fs args i vs])
    next
      case (Inr v)
      from True have "i + 1 \<le> length fs" by simp
      with "1.IH" [OF True Inr] have
        "combine_loop fs args (i + 1) (vs @ [v]) =
           (case gather (drop (i + 1) fs) args of
              Inl e \<Rightarrow> Inl e | Inr ws \<Rightarrow> Inr ((vs @ [v]) @ ws))"
        by simp
      with True d Inr show ?thesis
        by (simp add: combine_loop.simps [of fs args i vs] split: sum.splits)
    qed
  qed
qed

lemma gather_total:
  "\<forall>f \<in> set fs. f args = Inr (r f) \<Longrightarrow> gather fs args = Inr (map r fs)"
  by (induction fs) simp_all

text \<open>
  C2. The function \<^verbatim>\<open>combine(c, fs)\<close> returns, called with \<open>args\<close>, applies every
  function of \<open>fs\<close> to the same \<open>args\<close>, collects the results in the order of \<open>fs\<close>
  and returns \<open>c\<close> of that list. If a function of \<open>fs\<close> throws, the call throws the
  first such exception and \<open>c\<close> is not called; when every function returns, with \<open>r f\<close>
  the result of \<open>f\<close>, the call is \<open>c\<close> of the list of the \<open>r f\<close>.
\<close>

theorem combine_gathers:
  "combine c fs args = (case gather fs args of Inl e \<Rightarrow> Inl e | Inr vs \<Rightarrow> c vs)
   \<and> ((\<forall>f \<in> set fs. f args = Inr (r f)) \<longrightarrow> combine c fs args = c (map r fs))"
proof -
  have loop: "combine_loop fs args 0 [] = gather fs args"
    using combine_loop_gather [of 0 fs args "[]"] by (simp split: sum.splits)
  have first: "combine c fs args = (case gather fs args of Inl e \<Rightarrow> Inl e | Inr vs \<Rightarrow> c vs)"
    by (simp add: combine_def loop)
  moreover have "combine c fs args = c (map r fs)" if "\<forall>f \<in> set fs. f args = Inr (r f)"
    using that first gather_total [of fs args r] by simp
  ultimately show ?thesis by blast
qed

text \<open>
  The two predicates \<^verbatim>\<open>notNull\<close> and \<^verbatim>\<open>lengthAtLeast(2, _)\<close>, combined with \<^verbatim>\<open>AND\<close>
  and called with the array \<^verbatim>\<open>[1, 2]\<close>: both return, and the call is true.
\<close>

theorem combine_gathers_witness:
  "\<forall>h. (\<lambda>args. Inr (notNull (arg args 0)) :: jsval result)
            [Arr [Number (Fin 1), Number (Fin 2)]] = Inr (Boolean True)
       \<and> (\<lambda>args. lengthAtLeast h (Number (Fin 2)) (arg args 0))
            [Arr [Number (Fin 1), Number (Fin 2)]] = Inr (Boolean True)
       \<and> combine AND
           [\<lambda>args. Inr (notNull (arg args 0)),
            \<lambda>args. lengthAtLeast h (Number (Fin 2)) (arg args 0)]
           [Arr [Number (Fin 1), Number (Fin 2)]] = Inr (Boolean True)"
proof
  fix h
  let ?v = "Arr [Number (Fin 1), Number (Fin 2)]"
  let ?p = "\<lambda>args. Inr (notNull (arg args 0)) :: jsval result"
  let ?q = "\<lambda>args. lengthAtLeast h (Number (Fin 2)) (arg args 0)"
  let ?r = "\<lambda>f :: jsfun. case f [?v] of Inl e \<Rightarrow> Undefined | Inr v \<Rightarrow> v"
  have p: "?p [?v] = Inr (Boolean True)"
    by (simp add: notNull_def arg_def)
  have q: "?q [?v] = Inr (Boolean True)"
    by (simp add: lengthAtLeast_def loose_ne_null_def js_ge_Number arg_def)
  have all: "\<forall>f \<in> set [?p, ?q]. f [?v] = Inr (?r f)"
    using p q by simp
  have "combine AND [?p, ?q] [?v] = AND (map ?r [?p, ?q])"
    using combine_gathers [of AND "[?p, ?q]" "[?v]" ?r] all by blast
  also have "\<dots> = Inr (Boolean True)"
    using p q by (simp add: AND_def reduce_def and_fn_def js_and_def)
  finally show "?p [?v] = Inr (Boolean True) \<and> ?q [?v] = Inr (Boolean True)
      \<and> combine AND [?p, ?q] [?v] = Inr (Boolean True)"
    using p q by simp
qed

text \<open>
  C3. \<^verbatim>\<open>AND([])\<close>, \<^verbatim>\<open>OR([])\<close> and \<^verbatim>\<open>XOR([])\<close> each raise the error of the unseeded
  fold of an empty sequence; the error is the one \<^verbatim>\<open>reduce\<close> raises, passed on as it is.
\<close>

theorem empty_fold_raises:
  "AND [] = Inl Error \<and> OR [] = Inl Error \<and> XOR h [] = Inl Error
   \<and> AND [] = reduce and_fn [] None \<and> OR [] = reduce or_fn [] None
   \<and> XOR h [] = reduce (xor_fn h) [] None"
  by (simp add: AND_def OR_def XOR_def reduce_def)

text \<open>On booleans the three folded operations are conjunction, disjunction and exclusive or.\<close>

lemma xor_fn_Boolean: "xor_fn h (Boolean a) (Boolean b) = Boolean (a \<noteq> b)"
  by (cases a; cases b) (simp_all add: xor_fn_def trunc_def)

lemma foldl_and_fn: "foldl and_fn (Boolean b) (map Boolean bs) = Boolean (foldl (\<and>) b bs)"
  by (induction bs arbitrary: b) (simp_all add: and_fn_def js_and_def)

lemma foldl_or_fn: "foldl or_fn (Boolean b) (map Boolean bs) = Boolean (foldl (\<or>) b bs)"
  by (induction bs arbitrary: b) (simp_all add: or_fn_def js_or_def)

lemma foldl_xor_fn:
  "foldl (xor_fn h) (Boolean b) (map Boolean bs) = Boolean (foldl (\<noteq>) b bs)"
  by (induction bs arbitrary: b) (simp_all add: xor_fn_Boolean)

text \<open>
  C4. On a non-empty list of booleans, with first element \<open>b\<close> and rest \<open>bs\<close>, \<^verbatim>\<open>AND\<close>
  is the left fold of conjunction, \<^verbatim>\<open>OR\<close> of disjunction and \<^verbatim>\<open>XOR\<close> of exclusive or,
  started at \<open>b\<close> (no seed); \<^verbatim>\<open>AND([true, true, false])\<close> is false,
  \<^verbatim>\<open>OR([false, false, true])\<close> is true, \<^verbatim>\<open>XOR([true, false])\<close> is true and
  \<^verbatim>\<open>XOR([true, true])\<close> is false.
\<close>

theorem fold_booleans:
  "AND (map Boolean (b # bs)) = Inr (Boolean (foldl (\<and>) b bs))
   \<and> OR (map Boolean (b # bs)) = Inr (Boolean (foldl (\<or>) b bs))
   \<and> XOR h (map Boolean (b # bs)) = Inr (Boolean (foldl (\<noteq>) b bs))
   \<and> AND [Boolean True, Boolean True, Boolean False] = Inr (Boolean False)
   \<and> OR [Boolean False, Boolean False, Boolean True] = Inr (Boolean True)
   \<and> XOR h [Boolean True, Boolean False] = Inr (Boolean True)
   \<and> XOR h [Boolean True, Boolean True] = Inr (Boolean False)"
  by (simp add: AND_def OR_def XOR_def reduce_def foldl_and_fn foldl_or_fn foldl_xor_fn
      and_fn_def or_fn_def js_and_def js_or_def xor_fn_Boolean)

text \<open>
  C9. For a list of one element \<open>x\<close>, boolean or not, \<^verbatim>\<open>AND([x])\<close>, \<^verbatim>\<open>OR([x])\<close> and
  \<^verbatim>\<open>XOR([x])\<close> return \<open>x\<close> itself: the unseeded fold of one element is that element
  whatever the operation \<open>f\<close> is, so the operation is not applied and nothing is coerced.
\<close>

theorem singleton_fold:
  "AND [x] = Inr x \<and> OR [x] = Inr x \<and> XOR h [x] = Inr x \<and> reduce f [y] None = Inr y"
  by (simp add: AND_def OR_def XOR_def reduce_def)

text \<open>
  C10. \<^verbatim>\<open>invert(invert(p))\<close> called with \<open>args\<close> returns the boolean coercion of what
  \<open>p\<close> returns on \<open>args\<close> (and throws what \<open>p\<close> throws); when \<open>p\<close> always returns a
  boolean, \<^verbatim>\<open>invert(invert(p))\<close> is \<open>p\<close>; and \<^verbatim>\<open>pastDate(value)\<close> is the negation of
  \<^verbatim>\<open>futureDate(value)\<close>, both reading the same instant \<open>now\<close> from the clock.
\<close>

theorem invert_twice:
  "invert (invert p) args =
     (case p args of Inl e \<Rightarrow> Inl e | Inr v \<Rightarrow> Inr (Boolean (ToBoolean v)))
   \<and> ((\<forall>a. \<exists>b. p a = Inr (Boolean b)) \<longrightarrow> invert (invert p) = p)
   \<and> (\<exists>b. futureDate h now [value] = Inr (Boolean b)
          \<and> pastDate h now [value] = Inr (Boolean (\<not> b)))"
proof -
  have twice: "invert (invert q) a =
      (case q a of Inl e \<Rightarrow> Inl e | Inr v \<Rightarrow> Inr (Boolean (ToBoolean v)))" for q a
    by (simp add: invert_def split: sum.splits)
  have "invert (invert p) = p" if b: "\<forall>a. \<exists>b. p a = Inr (Boolean b)"
  proof
    fix a
    from b obtain c where "p a = Inr (Boolean c)" by blast
    then show "invert (invert p) a = p a" by (simp add: twice)
  qed
  moreover have "\<exists>b. futureDate h now [value] = Inr (Boolean b)
      \<and> pastDate h now [value] = Inr (Boolean (\<not> b))"
    by (simp add: pastDate_def invert_def futureDate_def)
  ultimately show ?thesis using twice [of p args] by blast
qed

text \<open>
  The predicate \<^verbatim>\<open>notNull\<close> always returns a boolean, so inverting it twice gives it
  back.
\<close>

theorem invert_twice_witness:
  "(\<forall>a. \<exists>b. (\<lambda>args. Inr (notNull (arg args 0)) :: jsval result) a = Inr (Boolean b))
   \<and> invert (invert (\<lambda>args. Inr (notNull (arg args 0)))) = (\<lambda>args. Inr (notNull (arg args 0)))"
proof -
  have b: "\<forall>a. \<exists>b. (\<lambda>args. Inr (notNull (arg args 0)) :: jsval result) a = Inr (Boolean b)"
    by (simp add: notNull_def)
  with invert_twice [of "\<lambda>args. Inr (notNull (arg args 0))"] show ?thesis by blast
qed

section \<open>Properties of the time predicates\<close>

text \<open>
  C5. For every unit breakdown over the keys \<^verbatim>\<open>days\<close>, \<^verbatim>\<open>hours\<close>, \<^verbatim>\<open>minutes\<close>,
  \<^verbatim>\<open>seconds\<close>, \<^verbatim>\<open>milliseconds\<close>, each present with a signed count or absent,
  \<^verbatim>\<open>TimeDelta\<close> is the weighted sum days * 86400000 + hours * 3600000 + minutes * 60000
  + seconds * 1000 + milliseconds, an absent key counting as 0 and any other key being
  ignored; the six values of \<^verbatim>\<open>test_timedelta\<close> follow.
\<close>

theorem TimeDelta_weighted_sum:
  "TimeDelta (\<lambda>k. if k = ''days'' then d else if k = ''hours'' then hr
                  else if k = ''minutes'' then m else if k = ''seconds'' then s
                  else if k = ''milliseconds'' then ms else other k)
     = (case d of None \<Rightarrow> 0 | Some n \<Rightarrow> n) * 86400000
       + (case hr of None \<Rightarrow> 0 | Some n \<Rightarrow> n) * 3600000
       + (case m of None \<Rightarrow> 0 | Some n \<Rightarrow> n) * 60000
       + (case s of None \<Rightarrow> 0 | Some n \<Rightarrow> n) * 1000
       + (case ms of None \<Rightarrow> 0 | Some n \<Rightarrow> n)
   \<and> TimeDelta [''days'' \<mapsto> 1] = 1000 * 3600 * 24
   \<and> TimeDelta [''days'' \<mapsto> - 1] = 1000 * 3600 * - 24
   \<and> TimeDelta [''days'' \<mapsto> 1, ''hours'' \<mapsto> 2] = 1000 * 3600 * 26
   \<and> TimeDelta [''days'' \<mapsto> 1, ''hours'' \<mapsto> 2, ''minutes'' \<mapsto> 3] = 1000 * (3600 * 26 + 60 * 3)
   \<and> TimeDelta [''days'' \<mapsto> 1, ''hours'' \<mapsto> 2, ''minutes'' \<mapsto> 3, ''seconds'' \<mapsto> 4]
       = 1000 * (3600 * 26 + 60 * 3 + 4)
   \<and> TimeDelta [''days'' \<mapsto> 1, ''hours'' \<mapsto> 2, ''minutes'' \<mapsto> 3, ''seconds'' \<mapsto> 4,
                 ''milliseconds'' \<mapsto> 5] = 1000 * (3600 * 26 + 60 * 3 + 4) + 5"
  by (simp add: TimeDelta_def part_def)

text \<open>
  In \<^verbatim>\<open>dateSince\<close> the test \<^verbatim>\<open>timedelta.offset > 0\<close> reads a property of a primitive
  number. The read gives \<^verbatim>\<open>undefined\<close>, whose comparison with 0 is false for every
  \<open>timedelta\<close>, so the branch \<^verbatim>\<open>value > t\<close> is never taken: whatever the sign of the
  delta, the result is \<^verbatim>\<open>value < t\<close>.
\<close>

lemma td_value_offset: "member_offset (td_value td) = Inr Undefined"
  by (simp add: td_value_def)

lemma undefined_gt_zero: "js_gt h Undefined (Number (Fin 0)) = False"
  by (simp add: js_gt_def compare_def)

lemma dateSince_always_before:
  "dateSince h td start value =
     Inr (Boolean (js_lt h (if ToBoolean value \<and> \<not> instanceof_Date value
                             then new_Date h value else value)
                           (asDate (offset start td))))"
  by (simp add: dateSince_def Let_def td_value_offset undefined_gt_zero)

text \<open>
  C1. The claim: \<^verbatim>\<open>dateSince(delta, start, value)\<close> computes the boundary
  \<^verbatim>\<open>start.offset(delta)\<close> and returns \<open>value > boundary\<close> for a delta of positive days,
  \<open>value < boundary\<close> for one of negative days. The code at a delta of one day, a start
  at timestamp 0 and a value two days after it: the boundary is 86400000, the value
  172800000 lies strictly after it, and \<^verbatim>\<open>dateSince\<close> returns false, for the value given
  as a \<^verbatim>\<open>Date\<close> and as a number alike.
\<close>

theorem dateSince_positive_delta:
  "TimeDelta [''days'' \<mapsto> 1] = 86400000
   \<and> asDate (offset \<lparr>timestamp = 0, oneDay = False\<rparr> (TimeDelta [''days'' \<mapsto> 1]))
       = Date (Fin 86400000)
   \<and> dateSince h (TimeDelta [''days'' \<mapsto> 1]) \<lparr>timestamp = 0, oneDay = False\<rparr>
        (Date (Fin 172800000)) = Inr (Boolean False)
   \<and> dateSince h (TimeDelta [''days'' \<mapsto> 1]) \<lparr>timestamp = 0, oneDay = False\<rparr>
        (Number (Fin 172800000)) = Inr (Boolean False)"
proof -
  have td: "TimeDelta [''days'' \<mapsto> 1] = 86400000"
    by (simp add: TimeDelta_def part_def)
  have t: "asDate (offset \<lparr>timestamp = 0, oneDay = False\<rparr> 86400000) = Date (Fin 86400000)"
    by (simp add: asDate_def offset_def trunc_def)
  have d: "dateSince h 86400000 \<lparr>timestamp = 0, oneDay = False\<rparr> (Date (Fin 172800000))
      = Inr (Boolean False)"
    by (simp add: dateSince_def Let_def td_value_def t js_gt_def js_lt_def compare_def)
  have n: "dateSince h 86400000 \<lparr>timestamp = 0, oneDay = False\<rparr> (Number (Fin 172800000))
      = Inr (Boolean False)"
    by (simp add: dateSince_def Let_def td_value_def t js_gt_def js_lt_def compare_def
        new_Date_def trunc_def)
  from td t d n show ?thesis by simp
qed

end
